theory Spec2Isabelle
  imports Complex_Main "HOL-Library.Monad_Syntax"
begin

section \<open>The archive.org collector\<close>

text \<open>
  A shallow embedding of the collector class \<^verbatim>\<open>ArchiveOrgCollector\<close> and of the schemas it
  validates with. JavaScript strings are modelled as HOL strings; a thrown \<^verbatim>\<open>Error\<close> is the
  left injection of a sum; the collaborators (HTTP client, persistence, uuid generator, URL
  parser) are fields of a record that every effectful operation receives.
\<close>

subsection \<open>Regular expressions of the collector\<close>

text \<open>
  \<open>lit p s\<close> matches the literal \<open>p\<close> at the start of \<open>s\<close> and returns what follows it.
\<close>

fun lit :: "string \<Rightarrow> string \<Rightarrow> string option" where
  "lit [] s = Some s"
| "lit (p # ps) [] = None"
| "lit (p # ps) (c # cs) = (if p = c then lit ps cs else None)"

text \<open>The character class \<^verbatim>\<open>[^/]\<close>.\<close>

definition notSlash :: "char \<Rightarrow> bool" where
  "notSlash c = (c \<noteq> CHR ''/'')"

text \<open>
  \<^verbatim>\<open>/https:\/\/archive\.org\/details\/([^/]+)/\<close> tried at the start of the subject: the
  literal, then the greedy group, which must take at least one character. Nothing follows
  the group, so the greedy choice is the match.
\<close>

definition detailsAt :: "string \<Rightarrow> string option" where
  "detailsAt s =
     (case lit ''https://archive.org/details/'' s of
        None \<Rightarrow> None
      | Some r \<Rightarrow> (if takeWhile notSlash r = [] then None else Some (takeWhile notSlash r)))"

text \<open>
  \<^verbatim>\<open>String.prototype.match\<close> with a regular expression that has no anchor and no flag: the
  match is tried at every start position from the left, and the first success wins. The
  result is capture group 1.
\<close>

fun detailsSearch :: "string \<Rightarrow> string option" where
  "detailsSearch [] = detailsAt []"
| "detailsSearch (c # cs) =
     (case detailsAt (c # cs) of Some g \<Rightarrow> Some g | None \<Rightarrow> detailsSearch cs)"

text \<open>\<^verbatim>\<open>getIdentifierFromUrl\<close>: \<^verbatim>\<open>match ? match[1] : null\<close>.\<close>

definition getIdentifierFromUrl :: "string \<Rightarrow> string option" where
  "getIdentifierFromUrl url = detailsSearch url"

text \<open>
  \<^verbatim>\<open>/^https:\/\/archive\.org\/(details|metadata)\/[^/]+$/\<close>: anchored at both ends; the
  alternation tries \<^verbatim>\<open>details\<close> first and \<^verbatim>\<open>metadata\<close> on failure of the rest.
\<close>

definition idToEnd :: "string \<Rightarrow> bool" where
  "idToEnd r = (case lit ''/'' r of None \<Rightarrow> False | Some i \<Rightarrow> i \<noteq> [] \<and> list_all notSlash i)"

definition validUrlRegex :: "string \<Rightarrow> bool" where
  "validUrlRegex v =
     (case lit ''https://archive.org/'' v of
        None \<Rightarrow> False
      | Some r \<Rightarrow>
          (case lit ''details'' r of None \<Rightarrow> False | Some t \<Rightarrow> idToEnd t) \<or>
          (case lit ''metadata'' r of None \<Rightarrow> False | Some t \<Rightarrow> idToEnd t))"

subsection \<open>JavaScript values\<close>

text \<open>
  A Number is \<open>NaN\<close>, negative zero, or \<open>F x\<close>: the Number value for the mathematical
  value \<open>x\<close> (ECMA-262 writes it with a double-struck F). Infinities do not occur: a JSON
  body has none, and \<^verbatim>\<open>parseInt\<close> yields none for the inputs considered.
\<close>

datatype number = NaN | NegZero | F rat

text \<open>
  The untyped values the schemas receive (\<^verbatim>\<open>unknown\<close>): a parsed JSON body or a request
  payload. An object is an association list; the value of a key is its first binding.
\<close>

datatype json =
    JNull
  | JBool bool
  | JNum number
  | JStr string
  | JArr "json list"
  | JObj "(string \<times> json) list"

subsection \<open>The schema combinators used by the collector\<close>

text \<open>Each schema is a parser: \<open>None\<close> is a failed \<^verbatim>\<open>safeParse\<close>.\<close>

definition z_string :: "json \<Rightarrow> string option" where
  "z_string j = (case j of JStr s \<Rightarrow> Some s | _ \<Rightarrow> None)"

text \<open>\<^verbatim>\<open>z.number()\<close> refuses \<open>NaN\<close>.\<close>

definition z_number :: "json \<Rightarrow> number option" where
  "z_number j = (case j of JNum n \<Rightarrow> (if n = NaN then None else Some n) | _ \<Rightarrow> None)"

definition z_array :: "(json \<Rightarrow> 'a option) \<Rightarrow> json \<Rightarrow> 'a list option" where
  "z_array p j = (case j of JArr xs \<Rightarrow> those (map p xs) | _ \<Rightarrow> None)"

text \<open>A key of a \<^verbatim>\<open>z.object\<close>: required, or \<^verbatim>\<open>.optional()\<close> (absent is accepted).\<close>

definition required :: "(json \<Rightarrow> 'a option) \<Rightarrow> json option \<Rightarrow> 'a option" where
  "required p v = (case v of None \<Rightarrow> None | Some j \<Rightarrow> p j)"

definition optional :: "(json \<Rightarrow> 'a option) \<Rightarrow> json option \<Rightarrow> 'a option option" where
  "optional p v = (case v of None \<Rightarrow> Some None | Some j \<Rightarrow> map_option Some (p j))"

subsection \<open>parseInt with radix 10\<close>

text \<open>
  Leading white space is trimmed (of the code units below 256: TAB, LF, VT, FF, CR, SP and
  NBSP), one sign is read, then the longest run of decimal digits. No digit gives \<open>NaN\<close>.
\<close>

definition isWhiteSpace :: "char \<Rightarrow> bool" where
  "isWhiteSpace c = ((of_char c :: nat) \<in> {9, 10, 11, 12, 13, 32, 160})"

definition isDigit :: "char \<Rightarrow> bool" where
  "isDigit c = (48 \<le> (of_char c :: nat) \<and> (of_char c :: nat) \<le> 57)"

definition digitsValue :: "string \<Rightarrow> nat" where
  "digitsValue z = foldl (\<lambda>acc c. 10 * acc + (of_char c - 48)) 0 z"

definition parseInt10 :: "string \<Rightarrow> number" where
  "parseInt10 inputString =
     (let S = dropWhile isWhiteSpace inputString;
          neg = (case S of [] \<Rightarrow> False | c # _ \<Rightarrow> c = CHR ''-'');
          S' = (case S of [] \<Rightarrow> [] | c # cs \<Rightarrow> (if c = CHR ''+'' \<or> c = CHR ''-'' then cs else S));
          Z = takeWhile isDigit S'
      in if Z = [] then NaN
         else if digitsValue Z = 0 then (if neg then NegZero else F 0)
         else if neg then F (- of_nat (digitsValue Z))
         else F (of_nat (digitsValue Z)))"

subsection \<open>fileSchema\<close>

text \<open>
  The fields of a file entry, in the schema's order; \<open>fl_\<close> prefixes the key of the
  source (\<open>fl_size\<close> is \<^verbatim>\<open>size\<close>).
\<close>

record File =
  fl_name :: string
  fl_source :: "string option"
  fl_mtime :: "string option"
  fl_size :: "number option"
  fl_md5 :: "string option"
  fl_crc32 :: "string option"
  fl_sha1 :: "string option"
  fl_format :: string
  fl_viruscheck :: "string option"
  fl_btih :: "string option"
  fl_summation :: "string option"

text \<open>
  \<^verbatim>\<open>z.union([z.string(), z.number()]).transform((val) => typeof val === "string" ?
  parseInt(val, 10) : val)\<close>: the transform's result is not validated again.
\<close>

definition sizeSchema :: "json \<Rightarrow> number option" where
  "sizeSchema j =
     (case z_string j of
        Some val \<Rightarrow> Some (parseInt10 val)
      | None \<Rightarrow> (case z_number j of Some val \<Rightarrow> Some val | None \<Rightarrow> None))"

definition fileSchema :: "json \<Rightarrow> File option" where
  "fileSchema j =
     (case j of
        JObj kv \<Rightarrow> do {
          name \<leftarrow> required z_string (map_of kv ''name'');
          source \<leftarrow> optional z_string (map_of kv ''source'');
          mtime \<leftarrow> optional z_string (map_of kv ''mtime'');
          sz \<leftarrow> optional sizeSchema (map_of kv ''size'');
          md5 \<leftarrow> optional z_string (map_of kv ''md5'');
          crc32 \<leftarrow> optional z_string (map_of kv ''crc32'');
          sha1 \<leftarrow> optional z_string (map_of kv ''sha1'');
          format \<leftarrow> required z_string (map_of kv ''format'');
          viruscheck \<leftarrow> optional z_string (map_of kv ''viruscheck'');
          btih \<leftarrow> optional z_string (map_of kv ''btih'');
          summation \<leftarrow> optional z_string (map_of kv ''summation'');
          Some \<lparr>fl_name = name, fl_source = source, fl_mtime = mtime, fl_size = sz,
                fl_md5 = md5, fl_crc32 = crc32, fl_sha1 = sha1, fl_format = format,
                fl_viruscheck = viruscheck, fl_btih = btih, fl_summation = summation\<rparr>
        }
      | _ \<Rightarrow> None)"

subsection \<open>metadataSchema and archiveResponseSchema\<close>

text \<open>
  Record fields are global names, so each carries a prefix before the key of the source:
  \<open>md_\<close> for the item metadata, \<open>sd_\<close> for a \<^verbatim>\<open>{server, dir}\<close> pair, \<open>al_\<close> for
  \<^verbatim>\<open>alternate_locations\<close> and \<open>ar_\<close> for the response.
\<close>

record Metadata =
  md_identifier :: string
  md_mediatype :: string
  md_collection :: "string list"
  md_description :: "string option"
  md_scanner :: "string option"
  md_subject :: "string option"
  md_title :: string
  md_uploader :: string
  md_publicdate :: string
  md_addeddate :: string
  md_curation :: "string option"

definition metadataSchema :: "json \<Rightarrow> Metadata option" where
  "metadataSchema j =
     (case j of
        JObj kv \<Rightarrow> do {
          identifier \<leftarrow> required z_string (map_of kv ''identifier'');
          mediatype \<leftarrow> required z_string (map_of kv ''mediatype'');
          collection \<leftarrow> required (z_array z_string) (map_of kv ''collection'');
          description \<leftarrow> optional z_string (map_of kv ''description'');
          scanner \<leftarrow> optional z_string (map_of kv ''scanner'');
          subject \<leftarrow> optional z_string (map_of kv ''subject'');
          title \<leftarrow> required z_string (map_of kv ''title'');
          uploader \<leftarrow> required z_string (map_of kv ''uploader'');
          publicdate \<leftarrow> required z_string (map_of kv ''publicdate'');
          addeddate \<leftarrow> required z_string (map_of kv ''addeddate'');
          curation \<leftarrow> optional z_string (map_of kv ''curation'');
          Some \<lparr>md_identifier = identifier, md_mediatype = mediatype,
                md_collection = collection, md_description = description,
                md_scanner = scanner, md_subject = subject, md_title = title,
                md_uploader = uploader, md_publicdate = publicdate,
                md_addeddate = addeddate, md_curation = curation\<rparr>
        }
      | _ \<Rightarrow> None)"

record ServerDir =
  sd_server :: string
  sd_dir :: string

definition serverDirSchema :: "json \<Rightarrow> ServerDir option" where
  "serverDirSchema j =
     (case j of
        JObj kv \<Rightarrow> do {
          server \<leftarrow> required z_string (map_of kv ''server'');
          dir \<leftarrow> required z_string (map_of kv ''dir'');
          Some \<lparr>sd_server = server, sd_dir = dir\<rparr>
        }
      | _ \<Rightarrow> None)"

record AlternateLocations =
  al_servers :: "ServerDir list"
  al_workable :: "ServerDir list"

definition alternateLocationsSchema :: "json \<Rightarrow> AlternateLocations option" where
  "alternateLocationsSchema j =
     (case j of
        JObj kv \<Rightarrow> do {
          servers \<leftarrow> required (z_array serverDirSchema) (map_of kv ''servers'');
          workable \<leftarrow> required (z_array serverDirSchema) (map_of kv ''workable'');
          Some \<lparr>al_servers = servers, al_workable = workable\<rparr>
        }
      | _ \<Rightarrow> None)"

record ArchiveResponse =
  ar_alternate_locations :: "AlternateLocations option"
  ar_created :: number
  ar_d1 :: string
  ar_d2 :: string
  ar_dir :: string
  ar_files :: "File list"
  ar_files_count :: number
  ar_item_last_updated :: number
  ar_item_size :: number
  ar_metadata :: Metadata
  ar_server :: string
  ar_uniq :: number
  ar_workable_servers :: "string list"

definition archiveResponseSchema :: "json \<Rightarrow> ArchiveResponse option" where
  "archiveResponseSchema j =
     (case j of
        JObj kv \<Rightarrow> do {
          alternate_locations \<leftarrow>
            optional alternateLocationsSchema (map_of kv ''alternate_locations'');
          created \<leftarrow> required z_number (map_of kv ''created'');
          d1 \<leftarrow> required z_string (map_of kv ''d1'');
          d2 \<leftarrow> required z_string (map_of kv ''d2'');
          dir \<leftarrow> required z_string (map_of kv ''dir'');
          files \<leftarrow> required (z_array fileSchema) (map_of kv ''files'');
          files_count \<leftarrow> required z_number (map_of kv ''files_count'');
          item_last_updated \<leftarrow> required z_number (map_of kv ''item_last_updated'');
          item_size \<leftarrow> required z_number (map_of kv ''item_size'');
          metadata \<leftarrow> required metadataSchema (map_of kv ''metadata'');
          server \<leftarrow> required z_string (map_of kv ''server'');
          uniq \<leftarrow> required z_number (map_of kv ''uniq'');
          workable_servers \<leftarrow> required (z_array z_string) (map_of kv ''workable_servers'');
          Some \<lparr>ar_alternate_locations = alternate_locations, ar_created = created,
                ar_d1 = d1, ar_d2 = d2, ar_dir = dir, ar_files = files,
                ar_files_count = files_count, ar_item_last_updated = item_last_updated,
                ar_item_size = item_size, ar_metadata = metadata, ar_server = server,
                ar_uniq = uniq, ar_workable_servers = workable_servers\<rparr>
        }
      | _ \<Rightarrow> None)"

subsection \<open>Collaborators, persisted rows and errors\<close>

datatype status = DOWNLOADING | READY | ERROR

text \<open>The calls the collector makes on the persistence client.\<close>

datatype dbCall =
    SourceFindFirst string string
  | SourceCreate string json
  | DocumentCreate string string status
  | DocumentUpdate "string option" status

text \<open>
  Every \<^verbatim>\<open>throw\<close> of the collector, and the rejections of its collaborators:
  \<^item> \<open>InvalidConfigurationForSource\<close>: \<^verbatim>\<open>Error("Invalid configuration for archive.org files")\<close>;
  \<^item> \<open>InvalidConfiguration\<close>: \<^verbatim>\<open>Error(`Invalid configuration: ...`)\<close>;
  \<^item> \<open>InvalidArchiveOrgUrl\<close>: \<^verbatim>\<open>Error("Invalid Archive.org URL")\<close>;
  \<^item> \<open>InvalidResponseStructure\<close>: \<^verbatim>\<open>Error("Invalid response structure from Archive.org")\<close>;
  \<^item> \<open>FailedToFetchMetadata\<close>: \<^verbatim>\<open>Error("Failed to fetch metadata from Archive.org")\<close>;
  \<^item> \<open>FailedToDownloadFile n\<close>: \<^verbatim>\<open>Error(`Failed to download file: ${fileName}`)\<close>;
  \<^item> \<open>DuplicateError i\<close>: \<^verbatim>\<open>DuplicateError("Data source already exists", exists.id)\<close>;
  \<^item> \<open>AxiosError\<close>: a rejected request of the HTTP client;
  \<^item> \<open>PrismaError c\<close>: the persistence client rejected the call \<open>c\<close>.
\<close>

datatype error =
    InvalidConfigurationForSource
  | InvalidConfiguration
  | InvalidArchiveOrgUrl
  | InvalidResponseStructure
  | FailedToFetchMetadata
  | FailedToDownloadFile string
  | DuplicateError string
  | AxiosError
  | PrismaError dbCall

text \<open>
  What the collector does not compute itself:
  \<^item> \<open>newURL u\<close>: the URL parser accepts \<open>u\<close> (the check behind \<^verbatim>\<open>z.string().url()\<close>);
  \<^item> \<open>axiosGet p\<close>: the body of \<^verbatim>\<open>axiosInstance.get(p)\<close>, \<open>None\<close> when the request is rejected;
  \<^item> \<open>axiosStream u p\<close>: the streaming GET of \<open>u\<close> piped into a file at \<open>p\<close> completes;
  \<^item> \<open>uuidv4 n\<close>: the result of the \<open>n\<close>-th call of \<^verbatim>\<open>uuidv4()\<close>;
  \<^item> \<open>dbRejects c\<close>: the persistence client rejects the call \<open>c\<close> whatever the rows are;
  \<^item> \<open>dbNewId n\<close>: the id given to a row created when \<open>n\<close> rows exist.
\<close>

record world =
  newURL :: "string \<Rightarrow> bool"
  axiosGet :: "string \<Rightarrow> json option"
  axiosStream :: "string \<Rightarrow> string \<Rightarrow> bool"
  uuidv4 :: "nat \<Rightarrow> string"
  dbRejects :: "dbCall \<Rightarrow> bool"
  dbNewId :: "nat \<Rightarrow> string"

text \<open>
  Modelled from the spec: the rows of the persistence collaborator (the module \<^verbatim>\<open>~/db\<close> is
  not among the sources). A DataSource is \<^verbatim>\<open>{id, type, config}\<close>, a Document is
  \<^verbatim>\<open>{id, sourceId, path, status}\<close>; the \<^verbatim>\<open>config\<close> column holds the validated object.
\<close>

record DocumentSource =
  ds_id :: string
  ds_type :: string
  ds_config :: json

record Document =
  doc_id :: string
  doc_sourceId :: string
  doc_path :: string
  doc_status :: status

text \<open>The mutable state: the two tables and the number of uuids drawn so far.\<close>

record state =
  documentSources :: "DocumentSource list"
  documents :: "Document list"
  uuidCalls :: nat

definition rowCount :: "state \<Rightarrow> nat" where
  "rowCount s = length (documentSources s) + length (documents s)"

text \<open>
  Modelled from the spec: the find operation for a DataSource keyed by (type, config.url),
  with exact string equality. It is the filter the collector passes to \<^verbatim>\<open>findFirst\<close>:
  \<^verbatim>\<open>type\<close> equals \<open>t\<close> and the JSON column \<^verbatim>\<open>config\<close> holds the string \<open>u\<close> at path
  \<^verbatim>\<open>["url"]\<close>. The first matching row is the answer.
\<close>

definition sourceMatches :: "string \<Rightarrow> string \<Rightarrow> DocumentSource \<Rightarrow> bool" where
  "sourceMatches t u r =
     (ds_type r = t \<and>
      (case ds_config r of JObj kv \<Rightarrow> map_of kv ''url'' = Some (JStr u) | _ \<Rightarrow> False))"

definition documentSource_findFirst ::
  "world \<Rightarrow> string \<Rightarrow> string \<Rightarrow> state \<Rightarrow> error + DocumentSource option" where
  "documentSource_findFirst w t u s =
     (if dbRejects w (SourceFindFirst t u) then Inl (PrismaError (SourceFindFirst t u))
      else Inr (find (sourceMatches t u) (documentSources s)))"

text \<open>
  Modelled from the spec: the create operations of the persistence collaborator. A
  created row gets a fresh id and is appended to its table; a Document starts in the
  status it is given.
\<close>

definition documentSource_create ::
  "world \<Rightarrow> string \<Rightarrow> json \<Rightarrow> state \<Rightarrow> error + DocumentSource \<times> state" where
  "documentSource_create w t c s =
     (if dbRejects w (SourceCreate t c) then Inl (PrismaError (SourceCreate t c))
      else (let row = \<lparr>ds_id = dbNewId w (rowCount s), ds_type = t, ds_config = c\<rparr>
            in Inr (row, s\<lparr>documentSources := documentSources s @ [row]\<rparr>)))"

definition document_create ::
  "world \<Rightarrow> string \<Rightarrow> string \<Rightarrow> status \<Rightarrow> state \<Rightarrow> error + Document \<times> state" where
  "document_create w sourceId path st s =
     (if dbRejects w (DocumentCreate sourceId path st)
      then Inl (PrismaError (DocumentCreate sourceId path st))
      else (let row = \<lparr>doc_id = dbNewId w (rowCount s), doc_sourceId = sourceId,
                         doc_path = path, doc_status = st\<rparr>
            in Inr (row, s\<lparr>documents := documents s @ [row]\<rparr>)))"

text \<open>
  Modelled from the spec: the update operation for a Document keyed by id,
  \<^verbatim>\<open>db.document.update({ where: { id }, data: { status } })\<close>. Without a valid id the update
  has no row to target and is rejected (the secondary error of the spec's edge case): a
  \<^verbatim>\<open>null\<close> id, or an id that no row has. Only the status of the row changes.
\<close>

definition document_update ::
  "world \<Rightarrow> string option \<Rightarrow> status \<Rightarrow> state \<Rightarrow> error + state" where
  "document_update w documentId st s =
     (if dbRejects w (DocumentUpdate documentId st)
      then Inl (PrismaError (DocumentUpdate documentId st))
      else (case documentId of
              None \<Rightarrow> Inl (PrismaError (DocumentUpdate documentId st))
            | Some i \<Rightarrow>
                (if list_ex (\<lambda>d. doc_id d = i) (documents s)
                 then Inr (s\<lparr>documents :=
                   map (\<lambda>d. if doc_id d = i then d\<lparr>doc_status := st\<rparr> else d) (documents s)\<rparr>)
                 else Inl (PrismaError (DocumentUpdate documentId st)))))"

subsection \<open>configSchema, validateConfig and createSource\<close>

record Config =
  cfg_url :: string

text \<open>
  \<^verbatim>\<open>z.object({ url: z.string().url().refine(...) }).strict()\<close>: a plain object, no key
  but \<^verbatim>\<open>url\<close>, whose value is a string that the URL parser and the regular expression accept.
\<close>

definition configSchema :: "world \<Rightarrow> json \<Rightarrow> Config option" where
  "configSchema w j =
     (case j of
        JObj kv \<Rightarrow>
          (if list_all (\<lambda>k. k = ''url'') (map fst kv)
           then do {
             url \<leftarrow> required z_string (map_of kv ''url'');
             (if newURL w url \<and> validUrlRegex url then Some \<lparr>cfg_url = url\<rparr> else None)
           }
           else None)
      | _ \<Rightarrow> None)"

definition validateConfig :: "world \<Rightarrow> json \<Rightarrow> Config option" where
  "validateConfig w config = configSchema w config"

definition createSource ::
  "world \<Rightarrow> json \<Rightarrow> state \<Rightarrow> (error + DocumentSource) \<times> state" where
  "createSource w config s =
     (case validateConfig w config of
        None \<Rightarrow> (Inl InvalidConfigurationForSource, s)
      | Some parsedConfig \<Rightarrow>
          (case documentSource_findFirst w ''archive.org files'' (cfg_url parsedConfig) s of
             Inl e \<Rightarrow> (Inl e, s)
           | Inr (Some exists) \<Rightarrow> (Inl (DuplicateError (ds_id exists)), s)
           | Inr None \<Rightarrow>
               (case documentSource_create w ''archive.org files''
                       (JObj [(''url'', JStr (cfg_url parsedConfig))]) s of
                  Inl e \<Rightarrow> (Inl e, s)
                | Inr (newSource, s') \<Rightarrow> (Inr newSource, s'))))"

subsection \<open>getArchiveData, getDownloadUrl and downloadFile\<close>

text \<open>The \<^verbatim>\<open>try\<close> block of \<^verbatim>\<open>getArchiveData\<close>, for the identifier \<open>m\<close>.\<close>

definition getArchiveDataTry :: "world \<Rightarrow> string \<Rightarrow> error + ArchiveResponse" where
  "getArchiveDataTry w m =
     (case axiosGet w (''/metadata/'' @ m) of
        None \<Rightarrow> Inl AxiosError
      | Some body \<Rightarrow>
          (case archiveResponseSchema body of
             None \<Rightarrow> Inl InvalidResponseStructure
           | Some parsed \<Rightarrow> Inr parsed))"

text \<open>
  \<^verbatim>\<open>if (!match)\<close> refuses \<^verbatim>\<open>null\<close> and the empty string. The \<^verbatim>\<open>catch\<close> clause
  receives whatever the \<^verbatim>\<open>try\<close> block throws and throws one fixed error.
\<close>

definition getArchiveData :: "world \<Rightarrow> string \<Rightarrow> error + ArchiveResponse" where
  "getArchiveData w url =
     (case getIdentifierFromUrl url of
        None \<Rightarrow> Inl InvalidArchiveOrgUrl
      | Some m \<Rightarrow>
          (if m = [] then Inl InvalidArchiveOrgUrl
           else (case getArchiveDataTry w m of
                   Inl e \<Rightarrow> Inl FailedToFetchMetadata
                 | Inr parsed \<Rightarrow> Inr parsed)))"

definition getDownloadUrl :: "ArchiveResponse \<Rightarrow> string \<Rightarrow> string" where
  "getDownloadUrl archiveData fileName =
     ''https://'' @ ar_server archiveData @ ar_dir archiveData @ ''/'' @ fileName"

definition downloadFile :: "world \<Rightarrow> ArchiveResponse \<Rightarrow> string \<Rightarrow> string \<Rightarrow> error + unit" where
  "downloadFile w archiveData fileName outputPath =
     (let downloadUrl = getDownloadUrl archiveData fileName
      in if axiosStream w downloadUrl outputPath then Inr ()
         else Inl (FailedToDownloadFile fileName))"

subsection \<open>downloadFiles\<close>

text \<open>\<^verbatim>\<open>String.prototype.split\<close> with a one-character separator: never the empty list.\<close>

fun splitOn :: "char \<Rightarrow> string \<Rightarrow> string list" where
  "splitOn d [] = [[]]"
| "splitOn d (c # cs) =
     (if c = d then [] # splitOn d cs
      else (case splitOn d cs of [] \<Rightarrow> [[c]] | p # ps \<Rightarrow> (c # p) # ps))"

text \<open>
  \<^verbatim>\<open>`${parts.pop()}`\<close>: the last element, and the text \<^verbatim>\<open>undefined\<close> for an empty array.
\<close>

definition popText :: "string list \<Rightarrow> string" where
  "popText parts = (case rev parts of [] \<Rightarrow> ''undefined'' | e # _ \<Rightarrow> e)"

record DownloadResult =
  successful :: "string list"
  failed :: "string list"

text \<open>
  The \<^verbatim>\<open>try\<close> block of one iteration. It returns the error it was left with (if any),
  \<^verbatim>\<open>documentId\<close> and the two lists as they stand on leaving, and the state.
\<close>

definition tryDownload ::
  "world \<Rightarrow> string \<Rightarrow> ArchiveResponse \<Rightarrow> File \<Rightarrow> string \<Rightarrow> DownloadResult \<Rightarrow> state
     \<Rightarrow> error option \<times> string option \<times> DownloadResult \<times> state" where
  "tryDownload w sourceId archiveData file outputPath acc s =
     (case document_create w sourceId outputPath DOWNLOADING s of
        Inl e \<Rightarrow> (Some e, None, acc, s)
      | Inr (document, s1) \<Rightarrow>
          (let documentId = Some (doc_id document)
           in case downloadFile w archiveData (fl_name file) outputPath of
                Inl e \<Rightarrow> (Some e, documentId, acc, s1)
              | Inr _ \<Rightarrow>
                  (let acc1 = acc\<lparr>successful := successful acc @ [outputPath]\<rparr>
                   in case document_update w documentId READY s1 of
                        Inl e \<Rightarrow> (Some e, documentId, acc1, s1)
                      | Inr s2 \<Rightarrow> (None, documentId, acc1, s2))))"

text \<open>
  The \<^verbatim>\<open>for\<close> loop. The \<^verbatim>\<open>catch\<close> clause awaits the status update to \<open>ERROR\<close> with
  \<^verbatim>\<open>documentId!\<close> (the assertion is erased at run time); a rejection there leaves the
  loop and the method. Neither branch writes to \<^verbatim>\<open>failed\<close>.
\<close>

fun downloadLoop ::
  "world \<Rightarrow> string \<Rightarrow> ArchiveResponse \<Rightarrow> string \<Rightarrow> File list \<Rightarrow> DownloadResult \<Rightarrow> state
     \<Rightarrow> (error + DownloadResult) \<times> state" where
  "downloadLoop w sourceId archiveData outputDir [] acc s = (Inr acc, s)"
| "downloadLoop w sourceId archiveData outputDir (file # rest) acc s =
     (let fileName = uuidv4 w (uuidCalls s) @ ''.'' @ popText (splitOn (CHR ''.'') (fl_name file));
          outputPath = outputDir @ ''/'' @ fileName;
          s0 = s\<lparr>uuidCalls := Suc (uuidCalls s)\<rparr>
      in case tryDownload w sourceId archiveData file outputPath acc s0 of
           (None, documentId, acc1, s1) \<Rightarrow>
             downloadLoop w sourceId archiveData outputDir rest acc1 s1
         | (Some e, documentId, acc1, s1) \<Rightarrow>
             (case document_update w documentId ERROR s1 of
                Inl e2 \<Rightarrow> (Inl e2, s1)
              | Inr s2 \<Rightarrow> downloadLoop w sourceId archiveData outputDir rest acc1 s2))"

definition downloadFiles ::
  "world \<Rightarrow> string \<Rightarrow> json \<Rightarrow> string \<Rightarrow> (File \<Rightarrow> bool) option \<Rightarrow> state
     \<Rightarrow> (error + DownloadResult) \<times> state" where
  "downloadFiles w sourceId config outputDir fileFilter s =
     (case configSchema w config of
        None \<Rightarrow> (Inl InvalidConfiguration, s)
      | Some parsed \<Rightarrow>
          (case getArchiveData w (cfg_url parsed) of
             Inl e \<Rightarrow> (Inl e, s)
           | Inr archiveData \<Rightarrow>
               (let files = (case fileFilter of
                               Some p \<Rightarrow> filter p (ar_files archiveData)
                             | None \<Rightarrow> ar_files archiveData)
                in downloadLoop w sourceId archiveData outputDir files
                     \<lparr>successful = [], failed = []\<rparr> s)))"

text \<open>
  For stating what a run of the loop returns: the output path the loop builds for \<open>file\<close>
  when \<open>n\<close> uuids have been drawn, and the paths of the files whose stream completes, in
  the order of the list.
\<close>

definition outputPathOf :: "world \<Rightarrow> string \<Rightarrow> nat \<Rightarrow> File \<Rightarrow> string" where
  "outputPathOf w outputDir n file =
     outputDir @ ''/'' @ uuidv4 w n @ ''.'' @ popText (splitOn (CHR ''.'') (fl_name file))"

fun streamedPaths :: "world \<Rightarrow> ArchiveResponse \<Rightarrow> string \<Rightarrow> nat \<Rightarrow> File list \<Rightarrow> string list" where
  "streamedPaths w archiveData outputDir n [] = []"
| "streamedPaths w archiveData outputDir n (file # rest) =
     (if axiosStream w (getDownloadUrl archiveData (fl_name file)) (outputPathOf w outputDir n file)
      then [outputPathOf w outputDir n file] else []) @
     streamedPaths w archiveData outputDir (Suc n) rest"

subsection \<open>A metadata body and worlds to run the collector in\<close>

definition fileEntry :: "string \<Rightarrow> json" where
  "fileEntry n = JObj [(''name'', JStr n), (''format'', JStr ''Text PDF'')]"

definition itemMetadata :: json where
  "itemMetadata = JObj
     [(''identifier'', JStr ''foo''), (''mediatype'', JStr ''texts''),
      (''collection'', JArr [JStr ''opensource'']), (''title'', JStr ''Foo''),
      (''uploader'', JStr ''someone@example.org''), (''publicdate'', JStr ''2020-01-01 00:00:00''),
      (''addeddate'', JStr ''2020-01-01 00:00:00'')]"

text \<open>The body without its \<^verbatim>\<open>files\<close> key, and the body with a list of file entries.\<close>

definition bodyWithoutFiles :: "(string \<times> json) list" where
  "bodyWithoutFiles =
     [(''created'', JNum (F 1600000000)), (''d1'', JStr ''ia600.us.archive.org''),
      (''d2'', JStr ''ia800.us.archive.org''), (''dir'', JStr ''/12/items/foo''),
      (''files_count'', JNum (F 3)), (''item_last_updated'', JNum (F 1600000001)),
      (''item_size'', JNum (F 4096)), (''metadata'', itemMetadata),
      (''server'', JStr ''ia600.us.archive.org''), (''uniq'', JNum (F 42)),
      (''workable_servers'', JArr [JStr ''ia600.us.archive.org''])]"

definition bodyWith :: "json list \<Rightarrow> json" where
  "bodyWith entries = JObj ((''files'', JArr entries) # bodyWithoutFiles)"

definition threeFiles :: json where
  "threeFiles = bodyWith [fileEntry ''a.pdf'', fileEntry ''b.pdf'', fileEntry ''c.pdf'']"

text \<open>What the schema makes of \<open>fileEntry n\<close> and of \<open>bodyWith\<close> a list of such entries.\<close>

definition parsedEntry :: "string \<Rightarrow> File" where
  "parsedEntry n =
     \<lparr>fl_name = n, fl_source = None, fl_mtime = None, fl_size = None, fl_md5 = None,
      fl_crc32 = None, fl_sha1 = None, fl_format = ''Text PDF'', fl_viruscheck = None,
      fl_btih = None, fl_summation = None\<rparr>"

definition parsedBody :: "File list \<Rightarrow> ArchiveResponse" where
  "parsedBody fs =
     \<lparr>ar_alternate_locations = None, ar_created = F 1600000000,
      ar_d1 = ''ia600.us.archive.org'', ar_d2 = ''ia800.us.archive.org'',
      ar_dir = ''/12/items/foo'', ar_files = fs, ar_files_count = F 3,
      ar_item_last_updated = F 1600000001, ar_item_size = F 4096,
      ar_metadata =
        \<lparr>md_identifier = ''foo'', md_mediatype = ''texts'', md_collection = [''opensource''],
         md_description = None, md_scanner = None, md_subject = None, md_title = ''Foo'',
         md_uploader = ''someone@example.org'', md_publicdate = ''2020-01-01 00:00:00'',
         md_addeddate = ''2020-01-01 00:00:00'', md_curation = None\<rparr>,
      ar_server = ''ia600.us.archive.org'', ar_uniq = F 42,
      ar_workable_servers = [''ia600.us.archive.org'']\<rparr>"

text \<open>
  A world in which the URL parser accepts everything, the metadata endpoint answers
  \<open>body\<close> for the item \<^verbatim>\<open>foo\<close>, the \<open>n\<close>-th uuid is the letter \<^verbatim>\<open>u\<close> \<open>n + 1\<close> times, the
  row created when \<open>n\<close> rows exist gets the letter \<^verbatim>\<open>d\<close> \<open>n + 1\<close> times as its id, the
  stream of \<open>badUrl\<close> fails, and the persistence client rejects the calls in \<open>rejected\<close>.
\<close>

definition testWorld :: "json \<Rightarrow> string \<Rightarrow> dbCall list \<Rightarrow> world" where
  "testWorld body badUrl rejected =
     \<lparr>newURL = (\<lambda>u. True),
      axiosGet = (\<lambda>p. if p = ''/metadata/foo'' then Some body else None),
      axiosStream = (\<lambda>u p. u \<noteq> badUrl),
      uuidv4 = (\<lambda>n. replicate (Suc n) (CHR ''u'')),
      dbRejects = (\<lambda>c. c \<in> set rejected),
      dbNewId = (\<lambda>n. replicate (Suc n) (CHR ''d''))\<rparr>"

definition emptyState :: state where
  "emptyState = \<lparr>documentSources = [], documents = [], uuidCalls = 0\<rparr>"

definition detailsConfig :: json where
  "detailsConfig = JObj [(''url'', JStr ''https://archive.org/details/foo'')]"

definition metadataConfig :: json where
  "metadataConfig = JObj [(''url'', JStr ''https://archive.org/metadata/foo'')]"

section \<open>Properties\<close>

subsection \<open>Identifier resolution\<close>

lemma lit_Some_iff: "lit p s = Some r \<longleftrightarrow> s = p @ r"
  by (induction p s rule: lit.induct) auto


lemma list_all_notSlash: "list_all notSlash i \<longleftrightarrow> CHR ''/'' \<notin> set i"
  by (induction i) (auto simp: notSlash_def)









subsection \<open>Download URL\<close>

text \<open>
  Claim C8. The download URL is \<^verbatim>\<open>https://\<close>, the server, the directory, a slash and the
  file name; for the server \<^verbatim>\<open>ia600.us.archive.org\<close>, the directory \<^verbatim>\<open>/12/items/foo\<close> and
  the file name \<^verbatim>\<open>bar.pdf\<close> it is \<^verbatim>\<open>https://ia600.us.archive.org/12/items/foo/bar.pdf\<close>.
\<close>

theorem getDownloadUrl_concat:
  "getDownloadUrl archiveData fileName =
     ''https://'' @ ar_server archiveData @ ar_dir archiveData @ ''/'' @ fileName \<and>
   getDownloadUrl (archiveData\<lparr>ar_server := ''ia600.us.archive.org'', ar_dir := ''/12/items/foo''\<rparr>) ''bar.pdf'' =
     ''https://ia600.us.archive.org/12/items/foo/bar.pdf''"
  by (simp add: getDownloadUrl_def)

subsection \<open>Config validation\<close>

lemma idToEnd_iff: "idToEnd t \<longleftrightarrow> (\<exists>i. t = CHR ''/'' # i \<and> i \<noteq> [] \<and> CHR ''/'' \<notin> set i)"
proof (cases "lit ''/'' t")
  case None
  then have "\<And>i. t \<noteq> ''/'' @ i"
    using lit_Some_iff[of "''/''" t] by auto
  with None show ?thesis by (auto simp: idToEnd_def simp del: lit.simps)
next
  case (Some i)
  then have "t = ''/'' @ i" by (simp only: lit_Some_iff)
  with Some show ?thesis by (auto simp: idToEnd_def list_all_notSlash simp del: lit.simps)
qed

lemma segment_case:
  "(case lit seg r of None \<Rightarrow> False | Some t \<Rightarrow> idToEnd t) \<longleftrightarrow>
     (\<exists>i. r = seg @ ''/'' @ i \<and> i \<noteq> [] \<and> CHR ''/'' \<notin> set i)"
proof (cases "lit seg r")
  case None
  then have "\<And>t. r \<noteq> seg @ t"
    using lit_Some_iff[of seg r] by auto
  with None show ?thesis by auto
next
  case (Some t)
  then have "r = seg @ t" by (simp only: lit_Some_iff)
  with Some show ?thesis by (auto simp: idToEnd_iff)
qed

lemma validUrlRegex_iff:
  "validUrlRegex v \<longleftrightarrow>
     (\<exists>seg i. (seg = ''details'' \<or> seg = ''metadata'') \<and> i \<noteq> [] \<and> CHR ''/'' \<notin> set i \<and>
        v = ''https://archive.org/'' @ seg @ ''/'' @ i)"
proof (cases "lit ''https://archive.org/'' v")
  case None
  then have "\<And>r. v \<noteq> ''https://archive.org/'' @ r"
    using lit_Some_iff[of "''https://archive.org/''" v] by auto
  then have "\<And>seg i. v \<noteq> ''https://archive.org/'' @ seg @ ''/'' @ i"
    by blast
  with None show ?thesis
    unfolding validUrlRegex_def by (simp del: lit.simps append.simps)
next
  case (Some r)
  then have v: "v = ''https://archive.org/'' @ r" by (simp only: lit_Some_iff)
  have "validUrlRegex v \<longleftrightarrow>
      (\<exists>i. r = ''details'' @ ''/'' @ i \<and> i \<noteq> [] \<and> CHR ''/'' \<notin> set i) \<or>
      (\<exists>i. r = ''metadata'' @ ''/'' @ i \<and> i \<noteq> [] \<and> CHR ''/'' \<notin> set i)"
    unfolding validUrlRegex_def Some option.case segment_case ..
  also have "\<dots> \<longleftrightarrow> (\<exists>seg i. (seg = ''details'' \<or> seg = ''metadata'') \<and> i \<noteq> [] \<and>
        CHR ''/'' \<notin> set i \<and> r = seg @ ''/'' @ i)"
    by blast
  finally show ?thesis unfolding v by (simp del: lit.simps)
qed

lemma only_url_keys: "map_of kv ''url'' = Some x \<Longrightarrow>
  list_all (\<lambda>k. k = ''url'') (map fst kv) \<longleftrightarrow> set (map fst kv) = {''url''}"
proof -
  assume "map_of kv ''url'' = Some x"
  then have "''url'' \<in> set (map fst kv)"
    by (metis domI dom_map_of_conv_image_fst set_map)
  then show ?thesis by (auto simp: list_all_iff)
qed

lemma configSchema_iff:
  "configSchema w config = Some c \<longleftrightarrow>
     (\<exists>kv u. config = JObj kv \<and> set (map fst kv) = {''url''} \<and>
        map_of kv ''url'' = Some (JStr u) \<and> newURL w u \<and> validUrlRegex u \<and>
        c = \<lparr>cfg_url = u\<rparr>)"
proof (cases config)
  case (JObj kv)
  show ?thesis
  proof (cases "map_of kv ''url''")
    case None
    with JObj show ?thesis by (simp add: configSchema_def required_def)
  next
    case (Some x)
    note keys = only_url_keys[OF Some]
    show ?thesis
    proof (cases x)
      case (JStr u)
      with JObj Some keys show ?thesis
        by (auto simp: configSchema_def required_def z_string_def)
    qed (use JObj Some in \<open>auto simp: configSchema_def required_def z_string_def\<close>)
  qed
qed (auto simp: configSchema_def)

text \<open>
  Claim C5. \<^verbatim>\<open>validateConfig\<close> accepts a value exactly when it is an object whose only key
  is \<^verbatim>\<open>url\<close>, bound to a string that the URL parser accepts and that is
  \<^verbatim>\<open>https://archive.org/\<close>, then \<^verbatim>\<open>details\<close> or \<^verbatim>\<open>metadata\<close>, a slash, and a non-empty
  identifier without a slash; the result then carries that string. Every other value gives
  \<open>None\<close>, the \<^verbatim>\<open>null\<close> of the source: the function has no error result.
\<close>

theorem validateConfig_accepts_iff:
  "validateConfig w config = Some c \<longleftrightarrow>
     (\<exists>kv u seg i. config = JObj kv \<and> set (map fst kv) = {''url''} \<and>
        map_of kv ''url'' = Some (JStr u) \<and> newURL w u \<and>
        (seg = ''details'' \<or> seg = ''metadata'') \<and> i \<noteq> [] \<and> CHR ''/'' \<notin> set i \<and>
        u = ''https://archive.org/'' @ seg @ ''/'' @ i \<and> c = \<lparr>cfg_url = u\<rparr>)"
  unfolding validateConfig_def configSchema_iff validUrlRegex_iff by blast

theorem validateConfig_accepts_iff_witness:
  "validateConfig (testWorld threeFiles [] []) metadataConfig =
     Some \<lparr>cfg_url = ''https://archive.org/metadata/foo''\<rparr> \<and>
   validateConfig (testWorld threeFiles [] [])
     (JObj [(''url'', JStr ''https://archive.org/details/foo''), (''extra'', JBool True)]) = None \<and>
   validateConfig (testWorld threeFiles [] [])
     (JObj [(''url'', JStr ''https://archive.org/details/foo/bar'')]) = None \<and>
   validateConfig (testWorld threeFiles [] []) (JStr ''https://archive.org/details/foo'') = None"
proof -
  have "\<exists>kv u seg i. metadataConfig = JObj kv \<and> set (map fst kv) = {''url''} \<and>
        map_of kv ''url'' = Some (JStr u) \<and> newURL (testWorld threeFiles [] []) u \<and>
        (seg = ''details'' \<or> seg = ''metadata'') \<and> i \<noteq> [] \<and> CHR ''/'' \<notin> set i \<and>
        u = ''https://archive.org/'' @ seg @ ''/'' @ i \<and>
        \<lparr>cfg_url = ''https://archive.org/metadata/foo''\<rparr> = \<lparr>cfg_url = u\<rparr>"
    by (intro exI[of _ "[(''url'', JStr ''https://archive.org/metadata/foo'')]"]
          exI[of _ "''https://archive.org/metadata/foo''"] exI[of _ "''metadata''"]
          exI[of _ "''foo''"])
       (simp add: metadataConfig_def testWorld_def)
  then have "validateConfig (testWorld threeFiles [] []) metadataConfig =
     Some \<lparr>cfg_url = ''https://archive.org/metadata/foo''\<rparr>"
    by (simp only: validateConfig_accepts_iff)
  moreover have "validateConfig (testWorld threeFiles [] [])
     (JObj [(''url'', JStr ''https://archive.org/details/foo''), (''extra'', JBool True)]) = None"
    by (simp add: validateConfig_def configSchema_def)
  moreover have "validateConfig (testWorld threeFiles [] [])
     (JObj [(''url'', JStr ''https://archive.org/details/foo/bar'')]) = None"
    by (simp add: validateConfig_def configSchema_def required_def z_string_def
        validUrlRegex_def idToEnd_def notSlash_def)
  moreover have "validateConfig (testWorld threeFiles [] []) (JStr ''https://archive.org/details/foo'') = None"
    by (simp add: validateConfig_def configSchema_def)
  ultimately show ?thesis by simp
qed

subsection \<open>Registering a source\<close>

lemma find_append_new:
  "find P xs = None \<Longrightarrow> P x \<Longrightarrow> find P (xs @ [x]) = Some x"
  by (induction xs) (simp_all split: if_split_asm)

lemma filter_append_new:
  "find P xs = None \<Longrightarrow> P x \<Longrightarrow> filter P (xs @ [x]) = [x]"
  by (induction xs) (simp_all split: if_split_asm)

lemma sourceMatches_new:
  "sourceMatches t u \<lparr>ds_id = i, ds_type = t, ds_config = JObj [(''url'', JStr u)]\<rparr>"
  by (simp add: sourceMatches_def)

lemma findFirst_absent:
  assumes "find (sourceMatches t u) (documentSources s) = None"
    and "\<not> dbRejects w (SourceFindFirst t u)"
  shows "documentSource_findFirst w t u s = Inr None"
  using assms by (simp only: documentSource_findFirst_def if_False)

lemma findFirst_after_create:
  assumes absent: "find (sourceMatches t u) (documentSources s) = None"
    and db_find: "\<not> dbRejects w (SourceFindFirst t u)"
  shows "documentSource_findFirst w t u
           (s\<lparr>documentSources := documentSources s @
              [\<lparr>ds_id = i, ds_type = t, ds_config = JObj [(''url'', JStr u)]\<rparr>]\<rparr>) =
         Inr (Some \<lparr>ds_id = i, ds_type = t, ds_config = JObj [(''url'', JStr u)]\<rparr>)"
  using find_append_new[OF absent sourceMatches_new, of i] db_find
  by (simp add: documentSource_findFirst_def)

lemma filter_after_create:
  assumes absent: "find (sourceMatches t u) (documentSources s) = None"
  shows "filter (sourceMatches t u)
           (documentSources (s\<lparr>documentSources := documentSources s @
              [\<lparr>ds_id = i, ds_type = t, ds_config = JObj [(''url'', JStr u)]\<rparr>]\<rparr>)) =
         [\<lparr>ds_id = i, ds_type = t, ds_config = JObj [(''url'', JStr u)]\<rparr>]"
  using filter_append_new[OF absent sourceMatches_new, of i]
  by simp

lemma create_accepted:
  assumes "\<not> dbRejects w (SourceCreate t c)"
  shows "documentSource_create w t c s =
     Inr (\<lparr>ds_id = dbNewId w (rowCount s), ds_type = t, ds_config = c\<rparr>,
          s\<lparr>documentSources := documentSources s @
            [\<lparr>ds_id = dbNewId w (rowCount s), ds_type = t, ds_config = c\<rparr>]\<rparr>)"
  using assms by (simp only: documentSource_create_def Let_def if_False)

lemma createSource_fresh:
  assumes valid: "validateConfig w config = Some c"
    and ff: "documentSource_findFirst w ''archive.org files'' (cfg_url c) s = Inr None"
    and cc: "documentSource_create w ''archive.org files'' (JObj [(''url'', JStr (cfg_url c))]) s =
               Inr (row, s1)"
  shows "createSource w config s = (Inr row, s1)"
  unfolding createSource_def by (simp add: valid ff cc)

lemma createSource_duplicate:
  assumes valid: "validateConfig w config = Some c"
    and ff: "documentSource_findFirst w ''archive.org files'' (cfg_url c) s = Inr (Some r)"
  shows "createSource w config s = (Inl (DuplicateError (ds_id r)), s)"
  unfolding createSource_def by (simp add: valid ff)

text \<open>
  Claim C9. Let the config be valid, let no row of the table match its type and URL, and
  let the persistence client accept the two calls. Then the first \<^verbatim>\<open>createSource\<close> returns
  a new row and appends it to the table, and a second call with the same config in the
  resulting state throws \<open>DuplicateError\<close> with the id of that row and leaves the state as
  it is, with exactly one row for the type and URL.
\<close>

theorem createSource_twice:
  assumes valid: "validateConfig w config = Some c"
    and absent: "find (sourceMatches ''archive.org files'' (cfg_url c)) (documentSources s) = None"
    and db_find: "\<not> dbRejects w (SourceFindFirst ''archive.org files'' (cfg_url c))"
    and db_create: "\<not> dbRejects w (SourceCreate ''archive.org files'' (JObj [(''url'', JStr (cfg_url c))]))"
  shows "\<exists>newSource s1.
           createSource w config s = (Inr newSource, s1) \<and>
           ds_type newSource = ''archive.org files'' \<and>
           ds_config newSource = JObj [(''url'', JStr (cfg_url c))] \<and>
           documentSources s1 = documentSources s @ [newSource] \<and>
           createSource w config s1 = (Inl (DuplicateError (ds_id newSource)), s1) \<and>
           filter (sourceMatches ''archive.org files'' (cfg_url c)) (documentSources s1) = [newSource]"
proof (intro exI conjI)
  show "createSource w config s =
     (Inr \<lparr>ds_id = dbNewId w (rowCount s), ds_type = ''archive.org files'',
             ds_config = JObj [(''url'', JStr (cfg_url c))]\<rparr>,
      s\<lparr>documentSources := documentSources s @
         [\<lparr>ds_id = dbNewId w (rowCount s), ds_type = ''archive.org files'',
            ds_config = JObj [(''url'', JStr (cfg_url c))]\<rparr>]\<rparr>)"
    by (rule createSource_fresh[OF valid findFirst_absent[OF absent db_find]
          create_accepted[OF db_create]])
  show "createSource w config
      (s\<lparr>documentSources := documentSources s @
         [\<lparr>ds_id = dbNewId w (rowCount s), ds_type = ''archive.org files'',
            ds_config = JObj [(''url'', JStr (cfg_url c))]\<rparr>]\<rparr>) =
     (Inl (DuplicateError (ds_id \<lparr>ds_id = dbNewId w (rowCount s), ds_type = ''archive.org files'',
             ds_config = JObj [(''url'', JStr (cfg_url c))]\<rparr>)),
      s\<lparr>documentSources := documentSources s @
         [\<lparr>ds_id = dbNewId w (rowCount s), ds_type = ''archive.org files'',
            ds_config = JObj [(''url'', JStr (cfg_url c))]\<rparr>]\<rparr>)"
    by (rule createSource_duplicate[OF valid findFirst_after_create[OF absent db_find]])
  show "filter (sourceMatches ''archive.org files'' (cfg_url c))
      (documentSources (s\<lparr>documentSources := documentSources s @
         [\<lparr>ds_id = dbNewId w (rowCount s), ds_type = ''archive.org files'',
            ds_config = JObj [(''url'', JStr (cfg_url c))]\<rparr>]\<rparr>)) =
     [\<lparr>ds_id = dbNewId w (rowCount s), ds_type = ''archive.org files'',
        ds_config = JObj [(''url'', JStr (cfg_url c))]\<rparr>]"
    by (rule filter_after_create[OF absent])
qed simp_all

lemma validateConfig_detailsConfig:
  "validateConfig (testWorld body bad rej) detailsConfig =
     Some \<lparr>cfg_url = ''https://archive.org/details/foo''\<rparr>"
  by (simp add: validateConfig_def configSchema_def detailsConfig_def required_def
      z_string_def testWorld_def validUrlRegex_def idToEnd_def notSlash_def)

theorem createSource_twice_witness:
  "\<exists>newSource s1.
     createSource (testWorld threeFiles [] []) detailsConfig emptyState = (Inr newSource, s1) \<and>
     ds_type newSource = ''archive.org files'' \<and>
     ds_config newSource = detailsConfig \<and>
     documentSources s1 = [newSource] \<and>
     createSource (testWorld threeFiles [] []) detailsConfig s1 =
       (Inl (DuplicateError (ds_id newSource)), s1) \<and>
     filter (sourceMatches ''archive.org files'' ''https://archive.org/details/foo'')
       (documentSources s1) = [newSource]"
proof -
  have absent: "find (sourceMatches ''archive.org files''
      (cfg_url \<lparr>cfg_url = ''https://archive.org/details/foo''\<rparr>)) (documentSources emptyState) = None"
    by (simp add: emptyState_def)
  have db_find: "\<not> dbRejects (testWorld threeFiles [] []) (SourceFindFirst ''archive.org files''
      (cfg_url \<lparr>cfg_url = ''https://archive.org/details/foo''\<rparr>))"
    by (simp add: testWorld_def)
  have db_create: "\<not> dbRejects (testWorld threeFiles [] []) (SourceCreate ''archive.org files''
      (JObj [(''url'', JStr (cfg_url \<lparr>cfg_url = ''https://archive.org/details/foo''\<rparr>))]))"
    by (simp add: testWorld_def)
  have docs: "documentSources emptyState = []"
    by (simp add: emptyState_def)
  show ?thesis
    using createSource_twice[OF validateConfig_detailsConfig absent db_find db_create]
    unfolding docs detailsConfig_def by simp
qed

subsection \<open>The size of a file entry\<close>

lemma sizeSchema_string: "sizeSchema (JStr s) = Some (parseInt10 s)"
  by (simp add: sizeSchema_def z_string_def)

lemma sizeSchema_number: "n \<noteq> NaN \<Longrightarrow> sizeSchema (JNum n) = Some n"
  by (simp add: sizeSchema_def z_string_def z_number_def)

lemma parseInt10_12345: "parseInt10 ''12345'' = F 12345"
  by (simp add: parseInt10_def isWhiteSpace_def isDigit_def digitsValue_def)

lemma parseInt10_abc: "parseInt10 ''abc'' = NaN"
  by (simp add: parseInt10_def isWhiteSpace_def isDigit_def)

lemma fileSchema_size:
  assumes "fileSchema (JObj kv) = Some f"
  shows "optional sizeSchema (map_of kv ''size'') = Some (fl_size f)"
  using assms
  by (auto simp: fileSchema_def split: Option.bind_splits)

text \<open>
  Claim C7. The schema of the \<^verbatim>\<open>size\<close> key accepts the string \<^verbatim>\<open>12345\<close> and yields the
  Number 12345, and accepts a Number (a JSON body carries no \<open>NaN\<close>) and yields it as it
  is; an accepted file entry whose \<^verbatim>\<open>size\<close> is that string or a Number has that value as
  its size.
\<close>

theorem size_normalized:
  "sizeSchema (JStr ''12345'') = Some (F 12345) \<and>
   (n \<noteq> NaN \<longrightarrow> sizeSchema (JNum n) = Some n) \<and>
   (fileSchema (JObj kv) = Some f \<and> map_of kv ''size'' = Some (JStr ''12345'') \<longrightarrow>
      fl_size f = Some (F 12345)) \<and>
   (fileSchema (JObj kv) = Some f \<and> map_of kv ''size'' = Some (JNum n) \<longrightarrow>
      fl_size f = Some n)"
proof (intro conjI impI)
  show "sizeSchema (JStr ''12345'') = Some (F 12345)"
    by (simp only: sizeSchema_string parseInt10_12345)
  show "sizeSchema (JNum n) = Some n" if "n \<noteq> NaN"
    using that by (rule sizeSchema_number)
  show "fl_size f = Some (F 12345)"
    if "fileSchema (JObj kv) = Some f \<and> map_of kv ''size'' = Some (JStr ''12345'')"
    using that fileSchema_size[of kv f]
    by (simp add: optional_def sizeSchema_string parseInt10_12345)
  show "fl_size f = Some n"
    if "fileSchema (JObj kv) = Some f \<and> map_of kv ''size'' = Some (JNum n)"
    using that fileSchema_size[of kv f]
    by (auto simp: optional_def sizeSchema_def z_string_def z_number_def split: if_splits)
qed

lemma fileSchema_example:
  "fileSchema (JObj [(''name'', JStr ''a.pdf''), (''format'', JStr ''Text PDF''), (''size'', v)]) =
     map_option (\<lambda>sz. \<lparr>fl_name = ''a.pdf'', fl_source = None, fl_mtime = None, fl_size = Some sz,
        fl_md5 = None, fl_crc32 = None, fl_sha1 = None, fl_format = ''Text PDF'',
        fl_viruscheck = None, fl_btih = None, fl_summation = None\<rparr>) (sizeSchema v)"
  by (cases "sizeSchema v") (simp_all add: fileSchema_def required_def optional_def z_string_def)

theorem size_normalized_witness:
  "map_option fl_size (fileSchema (JObj [(''name'', JStr ''a.pdf''), (''format'', JStr ''Text PDF''),
       (''size'', JStr ''12345'')])) = Some (Some (F 12345)) \<and>
   map_option fl_size (fileSchema (JObj [(''name'', JStr ''a.pdf''), (''format'', JStr ''Text PDF''),
       (''size'', JNum (F 12345))])) = Some (Some (F 12345)) \<and>
   sizeSchema (JNum (F (1 / 2))) = Some (F (1 / 2))"
proof -
  let ?f = "\<lparr>fl_name = ''a.pdf'', fl_source = None, fl_mtime = None, fl_size = Some (F 12345),
        fl_md5 = None, fl_crc32 = None, fl_sha1 = None, fl_format = ''Text PDF'',
        fl_viruscheck = None, fl_btih = None, fl_summation = None\<rparr>"
  have a: "fileSchema (JObj [(''name'', JStr ''a.pdf''), (''format'', JStr ''Text PDF''),
       (''size'', JStr ''12345'')]) = Some ?f"
    by (simp add: fileSchema_example sizeSchema_string parseInt10_12345)
  have b: "fileSchema (JObj [(''name'', JStr ''a.pdf''), (''format'', JStr ''Text PDF''),
       (''size'', JNum (F 12345))]) = Some ?f"
    by (simp add: fileSchema_example sizeSchema_number)
  have "fl_size ?f = Some (F 12345)"
    using size_normalized[of "F 12345" "[(''name'', JStr ''a.pdf''), (''format'', JStr ''Text PDF''),
       (''size'', JStr ''12345'')]" ?f] a
    by simp
  moreover have "sizeSchema (JNum (F (1 / 2))) = Some (F (1 / 2))"
    using size_normalized[of "F (1 / 2)" "[]" ?f] by simp
  ultimately show ?thesis
    by (simp add: a b)
qed

text \<open>
  Claim C10. The schema of the \<^verbatim>\<open>size\<close> key accepts every string and yields what
  \<^verbatim>\<open>parseInt\<close> makes of it, which is \<open>NaN\<close> for \<^verbatim>\<open>abc\<close>. A file entry whose \<^verbatim>\<open>size\<close> is a
  string is accepted or refused whatever the string is: replacing the string changes the
  size of the result and nothing else. A metadata body with such an entry validates, and
  the validated snapshot holds a file whose size is \<open>NaN\<close>.
\<close>

theorem size_string_never_rejected:
  "sizeSchema (JStr s) = Some (parseInt10 s) \<and>
   parseInt10 ''abc'' = NaN \<and>
   fileSchema (JObj ((''size'', JStr s) # kv)) =
     map_option (\<lambda>f. f\<lparr>fl_size := Some (parseInt10 s)\<rparr>)
       (fileSchema (JObj ((''size'', JStr t) # kv))) \<and>
   map_option (\<lambda>a. map fl_size (ar_files a))
     (archiveResponseSchema (bodyWith
        [JObj [(''name'', JStr ''a.pdf''), (''format'', JStr ''Text PDF''),
               (''size'', JStr ''abc'')]])) = Some [Some NaN]"
proof (intro conjI)
  show "sizeSchema (JStr s) = Some (parseInt10 s)"
    by (rule sizeSchema_string)
  show "parseInt10 ''abc'' = NaN"
    by (rule parseInt10_abc)
  show "fileSchema (JObj ((''size'', JStr s) # kv)) =
     map_option (\<lambda>f. f\<lparr>fl_size := Some (parseInt10 s)\<rparr>)
       (fileSchema (JObj ((''size'', JStr t) # kv)))"
    by (simp add: fileSchema_def optional_def sizeSchema_string split: Option.bind_split)
  show "map_option (\<lambda>a. map fl_size (ar_files a))
     (archiveResponseSchema (bodyWith
        [JObj [(''name'', JStr ''a.pdf''), (''format'', JStr ''Text PDF''),
               (''size'', JStr ''abc'')]])) = Some [Some NaN]"
    by (simp add: archiveResponseSchema_def bodyWith_def bodyWithoutFiles_def itemMetadata_def
        metadataSchema_def required_def optional_def z_string_def z_number_def z_array_def
        fileSchema_example sizeSchema_string parseInt10_abc)
qed

subsection \<open>Fetching the metadata\<close>

lemma archiveResponseSchema_no_files: "archiveResponseSchema (JObj bodyWithoutFiles) = None"
  by (simp add: archiveResponseSchema_def bodyWithoutFiles_def required_def optional_def
      z_number_def z_string_def)

lemma getIdentifierFromUrl_foo: "getIdentifierFromUrl ''https://archive.org/details/foo'' = Some ''foo''"
  by (simp add: getIdentifierFromUrl_def detailsAt_def notSlash_def)

lemma getArchiveData_never_InvalidResponseStructure:
  "getArchiveData w url \<noteq> Inl InvalidResponseStructure"
  by (simp add: getArchiveData_def split: option.splits sum.splits)

text \<open>
  Claim C3, on a body that has every required key but \<^verbatim>\<open>files\<close>. The schema refuses the
  body, and the error that leaves \<^verbatim>\<open>getArchiveData\<close> is the one a rejected request gives
  (here: the item \<^verbatim>\<open>bar\<close>, which the endpoint does not answer), not
  \<open>InvalidResponseStructure\<close>: the \<^verbatim>\<open>catch\<close> clause replaces it.
\<close>

theorem getArchiveData_invalid_shape_reported_as_fetch_failure:
  "archiveResponseSchema (JObj bodyWithoutFiles) = None \<and>
   getArchiveDataTry (testWorld (JObj bodyWithoutFiles) [] []) ''foo'' = Inl InvalidResponseStructure \<and>
   getArchiveData (testWorld (JObj bodyWithoutFiles) [] []) ''https://archive.org/details/foo'' =
     Inl FailedToFetchMetadata \<and>
   getArchiveData (testWorld (JObj bodyWithoutFiles) [] []) ''https://archive.org/details/bar'' =
     Inl FailedToFetchMetadata"
proof (intro conjI)
  show "archiveResponseSchema (JObj bodyWithoutFiles) = None"
    by (rule archiveResponseSchema_no_files)
  show t: "getArchiveDataTry (testWorld (JObj bodyWithoutFiles) [] []) ''foo'' = Inl InvalidResponseStructure"
    by (simp add: getArchiveDataTry_def testWorld_def archiveResponseSchema_no_files)
  show "getArchiveData (testWorld (JObj bodyWithoutFiles) [] []) ''https://archive.org/details/foo'' =
     Inl FailedToFetchMetadata"
    by (simp add: getArchiveData_def getIdentifierFromUrl_foo t)
  show "getArchiveData (testWorld (JObj bodyWithoutFiles) [] []) ''https://archive.org/details/bar'' =
     Inl FailedToFetchMetadata"
    by (simp add: getArchiveData_def getIdentifierFromUrl_def detailsAt_def notSlash_def
        getArchiveDataTry_def testWorld_def)
qed

subsection \<open>The download loop\<close>

lemma fileSchema_fileEntry: "fileSchema (fileEntry n) = Some (parsedEntry n)"
  by (simp add: fileEntry_def fileSchema_def required_def optional_def z_string_def parsedEntry_def)

lemma metadataSchema_itemMetadata:
  "metadataSchema itemMetadata = Some (ar_metadata (parsedBody fs))"
  by (simp add: itemMetadata_def metadataSchema_def required_def optional_def z_string_def
      z_array_def parsedBody_def)

lemma archiveResponseSchema_bodyWith:
  "archiveResponseSchema (bodyWith entries) = map_option parsedBody (those (map fileSchema entries))"
  by (cases "those (map fileSchema entries)")
     (simp_all add: archiveResponseSchema_def bodyWith_def bodyWithoutFiles_def
        metadataSchema_itemMetadata[of "[]"] required_def optional_def z_string_def z_number_def
        z_array_def parsedBody_def)

lemma archiveResponseSchema_threeFiles_parsed:
  "archiveResponseSchema threeFiles =
     Some (parsedBody [parsedEntry ''a.pdf'', parsedEntry ''b.pdf'', parsedEntry ''c.pdf''])"
  by (simp add: threeFiles_def archiveResponseSchema_bodyWith fileSchema_fileEntry)

lemma getArchiveData_threeFiles:
  "getArchiveData (testWorld threeFiles bad rej) ''https://archive.org/details/foo'' =
     Inr (parsedBody [parsedEntry ''a.pdf'', parsedEntry ''b.pdf'', parsedEntry ''c.pdf''])"
  by (simp add: getArchiveData_def getIdentifierFromUrl_foo getArchiveDataTry_def testWorld_def
      archiveResponseSchema_threeFiles_parsed)

lemma configSchema_detailsConfig:
  "configSchema (testWorld body bad rej) detailsConfig =
     Some \<lparr>cfg_url = ''https://archive.org/details/foo''\<rparr>"
  using validateConfig_detailsConfig[of body bad rej] by (simp add: validateConfig_def)

lemma testWorld_sel:
  "newURL (testWorld body bad rej) u = True"
  "axiosGet (testWorld body bad rej) p = (if p = ''/metadata/foo'' then Some body else None)"
  "axiosStream (testWorld body bad rej) u q = (u \<noteq> bad)"
  "uuidv4 (testWorld body bad rej) n = replicate (Suc n) (CHR ''u'')"
  "dbRejects (testWorld body bad rej) c = (c \<in> set rej)"
  "dbNewId (testWorld body bad rej) n = replicate (Suc n) (CHR ''d'')"
  by (simp_all add: testWorld_def)

lemmas downloadLoop_eval =
  popText_def tryDownload_def document_create_def document_update_def downloadFile_def
  getDownloadUrl_def parsedBody_def parsedEntry_def testWorld_sel emptyState_def rowCount_def
  Let_def

lemma tryDownload_failed:
  "tryDownload w sourceId archiveData file outputPath acc s = (eo, documentId, acc1, s1) \<Longrightarrow>
     failed acc1 = failed acc"
  by (auto simp: tryDownload_def Let_def split: sum.splits prod.splits)

lemma downloadLoop_failed:
  "downloadLoop w sourceId archiveData outputDir files acc s = (Inr r, s') \<Longrightarrow>
     failed r = failed acc"
proof (induction files arbitrary: acc s)
  case Nil
  then show ?case by simp
next
  case (Cons f rest)
  let ?path = "outputDir @ ''/'' @ uuidv4 w (uuidCalls s) @ ''.'' @
      popText (splitOn (CHR ''.'') (fl_name f))"
  obtain eo documentId acc1 s1 where
    t: "tryDownload w sourceId archiveData f ?path acc (s\<lparr>uuidCalls := Suc (uuidCalls s)\<rparr>) =
          (eo, documentId, acc1, s1)"
    by (metis prod_cases4)
  have f: "failed acc1 = failed acc"
    using t by (rule tryDownload_failed)
  show ?case
  proof (cases eo)
    case None
    with Cons.prems t have "downloadLoop w sourceId archiveData outputDir rest acc1 s1 = (Inr r, s')"
      by (simp add: Let_def)
    then show ?thesis using Cons.IH f by simp
  next
    case (Some e)
    show ?thesis
    proof (cases "document_update w documentId ERROR s1")
      case (Inl e2)
      with Cons.prems t Some show ?thesis by (simp add: Let_def)
    next
      case (Inr s2)
      with Cons.prems t Some have "downloadLoop w sourceId archiveData outputDir rest acc1 s2 = (Inr r, s')"
        by (simp add: Let_def)
      then show ?thesis using Cons.IH f by simp
    qed
  qed
qed

lemma downloadFiles_failed_empty:
  "downloadFiles w sourceId config outputDir fileFilter s = (Inr r, s') \<Longrightarrow> failed r = []"
  by (auto simp: downloadFiles_def Let_def dest: downloadLoop_failed split: option.splits sum.splits)

lemma document_update_null:
  "document_update w None st s = Inl (PrismaError (DocumentUpdate None st))"
  by (simp add: document_update_def)

lemma downloadLoop_create_rejected:
  assumes "dbRejects w (DocumentCreate sourceId
      (outputDir @ ''/'' @ uuidv4 w (uuidCalls s) @ ''.'' @
         popText (splitOn (CHR ''.'') (fl_name file))) DOWNLOADING)"
  shows "downloadLoop w sourceId archiveData outputDir (file # rest) acc s =
     (Inl (PrismaError (DocumentUpdate None ERROR)), s\<lparr>uuidCalls := Suc (uuidCalls s)\<rparr>)"
  using assms
  by (simp add: tryDownload_def document_create_def document_update_null Let_def)

lemma detailsSearch_no_slash: "CHR ''/'' \<notin> set i \<Longrightarrow> detailsSearch i = None"
proof (induction i)
  case Nil
  show ?case by (simp add: detailsAt_def)
next
  case (Cons c cs)
  have "lit ''https://archive.org/details/'' (c # cs) = None"
  proof (cases "lit ''https://archive.org/details/'' (c # cs)")
    case (Some r)
    then have "c # cs = ''https://archive.org/details/'' @ r"
      by (simp only: lit_Some_iff)
    then have "CHR ''/'' \<in> set (c # cs)"
      by simp
    with Cons.prems show ?thesis by simp
  qed simp
  then have "detailsAt (c # cs) = None"
    by (simp only: detailsAt_def option.case)
  with Cons show ?case by simp
qed

lemma getIdentifierFromUrl_metadata:
  "CHR ''/'' \<notin> set i \<Longrightarrow> getIdentifierFromUrl (''https://archive.org/metadata/'' @ i) = None"
  by (simp add: getIdentifierFromUrl_def detailsAt_def detailsSearch_no_slash)

lemma downloadFiles_metadata_url:
  assumes "configSchema w config = Some \<lparr>cfg_url = ''https://archive.org/metadata/'' @ i\<rparr>"
  shows "downloadFiles w sourceId config outputDir fileFilter s = (Inl InvalidArchiveOrgUrl, s)"
proof -
  from assms have "validUrlRegex (''https://archive.org/metadata/'' @ i)"
    by (auto simp: configSchema_def split: json.splits if_splits Option.bind_splits)
  then have "CHR ''/'' \<notin> set i"
    by (simp add: validUrlRegex_def idToEnd_def list_all_notSlash)
  then have "getIdentifierFromUrl (''https://archive.org/metadata/'' @ i) = None"
    by (rule getIdentifierFromUrl_metadata)
  then have "getArchiveData w (''https://archive.org/metadata/'' @ i) = Inl InvalidArchiveOrgUrl"
    by (simp only: getArchiveData_def option.case)
  with assms show ?thesis
    by (simp add: downloadFiles_def)
qed

lemma downloadLoop_step_healthy:
  assumes healthy: "\<And>c. \<not> dbRejects w c"
  shows "\<exists>s2. length (documents s2) = Suc (length (documents s)) \<and>
           uuidCalls s2 = Suc (uuidCalls s) \<and>
           downloadLoop w sourceId archiveData outputDir (f # rest) acc s =
           downloadLoop w sourceId archiveData outputDir rest
             (acc\<lparr>successful := successful acc @
                (if axiosStream w (getDownloadUrl archiveData (fl_name f))
                      (outputPathOf w outputDir (uuidCalls s) f)
                 then [outputPathOf w outputDir (uuidCalls s) f] else [])\<rparr>) s2"
proof (cases "axiosStream w (getDownloadUrl archiveData (fl_name f))
                (outputPathOf w outputDir (uuidCalls s) f)")
  case True
  then show ?thesis
    apply (simp add: healthy tryDownload_def document_create_def document_update_def
        downloadFile_def outputPathOf_def Let_def)
    apply (intro exI conjI)
      prefer 3
      apply (rule refl)
     apply simp_all
    done
next
  case False
  then show ?thesis
    apply (simp add: healthy tryDownload_def document_create_def document_update_def
        downloadFile_def outputPathOf_def Let_def)
    apply (intro exI conjI)
      prefer 3
      apply (rule refl)
     apply simp_all
    done
qed

lemma downloadLoop_healthy:
  assumes healthy: "\<And>c. \<not> dbRejects w c"
  shows "\<exists>s'. length (documents s') = length (documents s) + length files \<and>
           downloadLoop w sourceId archiveData outputDir files acc s =
             (Inr \<lparr>successful = successful acc @
                     streamedPaths w archiveData outputDir (uuidCalls s) files,
                   failed = failed acc\<rparr>, s')"
proof (induction files arbitrary: acc s)
  case Nil
  show ?case by simp
next
  case (Cons f rest)
  let ?acc1 = "acc\<lparr>successful := successful acc @
      (if axiosStream w (getDownloadUrl archiveData (fl_name f))
            (outputPathOf w outputDir (uuidCalls s) f)
       then [outputPathOf w outputDir (uuidCalls s) f] else [])\<rparr>"
  from downloadLoop_step_healthy[OF healthy, of s sourceId archiveData outputDir f rest acc]
  obtain s2 where
    len: "length (documents s2) = Suc (length (documents s))" and
    cnt: "uuidCalls s2 = Suc (uuidCalls s)" and
    step: "downloadLoop w sourceId archiveData outputDir (f # rest) acc s =
           downloadLoop w sourceId archiveData outputDir rest ?acc1 s2"
    by blast
  from Cons.IH[of s2 ?acc1] obtain s' where
    len': "length (documents s') = length (documents s2) + length rest" and
    run: "downloadLoop w sourceId archiveData outputDir rest ?acc1 s2 =
          (Inr \<lparr>successful = successful ?acc1 @
                  streamedPaths w archiveData outputDir (uuidCalls s2) rest,
                failed = failed ?acc1\<rparr>, s')"
    by blast
  have "length (documents s') = length (documents s) + length (f # rest)"
    using len len' by simp
  moreover have "downloadLoop w sourceId archiveData outputDir (f # rest) acc s =
      (Inr \<lparr>successful = successful acc @
              streamedPaths w archiveData outputDir (uuidCalls s) (f # rest),
            failed = failed acc\<rparr>, s')"
    unfolding step run cnt by simp
  ultimately show ?case by blast
qed

lemma downloadFiles_healthy:
  assumes healthy: "\<And>c. \<not> dbRejects w c"
    and config: "configSchema w config = Some c"
    and snapshot: "getArchiveData w (cfg_url c) = Inr archiveData"
  shows "\<exists>s'. length (documents s') = length (documents s) + length (ar_files archiveData) \<and>
           downloadFiles w sourceId config outputDir None s =
             (Inr \<lparr>successful = streamedPaths w archiveData outputDir (uuidCalls s)
                     (ar_files archiveData),
                   failed = []\<rparr>, s')"
  using downloadLoop_healthy[OF healthy, of s "ar_files archiveData" sourceId archiveData outputDir
      "\<lparr>successful = [], failed = []\<rparr>"]
  by (simp add: downloadFiles_def config snapshot)

text \<open>
  Claim C1, on a batch of three files in which the stream of the second fails and the
  persistence client accepts every call. The loop reaches the third file, \<^verbatim>\<open>successful\<close>
  holds the paths of the first and the third, and the second Document ends in status
  \<open>ERROR\<close>; but \<^verbatim>\<open>failed\<close> is empty, where the claim has the name \<^verbatim>\<open>b.pdf\<close>: the \<^verbatim>\<open>catch\<close>
  clause never writes to it (\<open>downloadFiles_failed_empty\<close>; \<open>downloadFiles_healthy\<close> gives
  the result of every batch on which the persistence client accepts all calls).
\<close>

theorem downloadFiles_second_stream_fails:
  "downloadFiles (testWorld threeFiles ''https://ia600.us.archive.org/12/items/foo/b.pdf'' [])
     ''src1'' detailsConfig ''./downloads'' None emptyState =
   (Inr \<lparr>successful = [''./downloads/u.pdf'', ''./downloads/uuu.pdf''], failed = []\<rparr>,
    \<lparr>documentSources = [],
     documents =
       [\<lparr>doc_id = ''d'', doc_sourceId = ''src1'', doc_path = ''./downloads/u.pdf'',
          doc_status = READY\<rparr>,
        \<lparr>doc_id = ''dd'', doc_sourceId = ''src1'', doc_path = ''./downloads/uu.pdf'',
          doc_status = ERROR\<rparr>,
        \<lparr>doc_id = ''ddd'', doc_sourceId = ''src1'', doc_path = ''./downloads/uuu.pdf'',
          doc_status = READY\<rparr>],
     uuidCalls = 3\<rparr>)"
  by (simp add: downloadFiles_def configSchema_detailsConfig getArchiveData_threeFiles
      downloadLoop_eval)

text \<open>
  Claim C2, on the same three files when the persistence client rejects the creation of
  the first Document. The \<^verbatim>\<open>catch\<close> clause calls the status update with the \<^verbatim>\<open>null\<close> id;
  that call is rejected, and its error leaves \<^verbatim>\<open>downloadFiles\<close> in place of a result: no
  Document exists, one uuid was drawn, and the second and third file were never tried.
\<close>

theorem downloadFiles_create_rejected_aborts:
  "downloadFiles
     (testWorld threeFiles [] [DocumentCreate ''src1'' ''./downloads/u.pdf'' DOWNLOADING])
     ''src1'' detailsConfig ''./downloads'' None emptyState =
   (Inl (PrismaError (DocumentUpdate None ERROR)),
    \<lparr>documentSources = [], documents = [], uuidCalls = 1\<rparr>)"
  by (simp add: downloadFiles_def configSchema_detailsConfig getArchiveData_threeFiles
      downloadLoop_eval)

text \<open>
  Claim C6, on the config \<^verbatim>\<open>{url: "https://archive.org/metadata/foo"}\<close>. The validator
  accepts it, and \<^verbatim>\<open>downloadFiles\<close> throws the invalid-URL error of identifier resolution,
  which knows the \<^verbatim>\<open>details\<close> path only (see \<open>downloadFiles_metadata_url\<close> for every
  identifier).
\<close>

theorem downloadFiles_metadata_config_invalid_url:
  "validateConfig (testWorld threeFiles [] []) metadataConfig =
     Some \<lparr>cfg_url = ''https://archive.org/metadata/foo''\<rparr> \<and>
   downloadFiles (testWorld threeFiles [] []) ''src1'' metadataConfig ''./downloads'' None
     emptyState = (Inl InvalidArchiveOrgUrl, emptyState)"
proof -
  have c: "configSchema (testWorld threeFiles [] []) metadataConfig =
     Some \<lparr>cfg_url = ''https://archive.org/metadata/'' @ ''foo''\<rparr>"
    by (simp add: configSchema_def metadataConfig_def required_def z_string_def
        validUrlRegex_def idToEnd_def notSlash_def testWorld_sel)
  then have "downloadFiles (testWorld threeFiles [] []) ''src1'' metadataConfig ''./downloads''
      None emptyState = (Inl InvalidArchiveOrgUrl, emptyState)"
    by (rule downloadFiles_metadata_url)
  with c show ?thesis
    by (simp add: validateConfig_def)
qed

end
